theory Spec2Isabelle
  imports Complex_Main "HOL-Library.Log_Nat"
begin

section \<open>Binary options session ledger: embedding of \<^verbatim>\<open>src/core/main.py\<close>\<close>

text \<open>
  Conventions of the embedding.
  \<^item> A Python \<^verbatim>\<open>float\<close> (balances, percentages, risk amounts) is the \<^typ>\<open>real\<close> number
    it denotes. Every \<^verbatim>\<open>+\<close>, \<^verbatim>\<open>-\<close>, \<^verbatim>\<open>*\<close> and \<^verbatim>\<open>/\<close> of the source on floats is the
    exact operation followed by rounding to the nearest double (\<open>fl_add\<close>, \<open>fl_sub\<close>,
    \<open>fl_mul\<close>, \<open>fl_div\<close> below). Negation, comparison, \<^verbatim>\<open>max\<close> and \<^verbatim>\<open>min\<close> are exact.
    Infinities and NaN are not modelled. A float is falsy exactly when it is zero.
  \<^item> Python \<^verbatim>\<open>int\<close> values (the streak counters, the counts of the statistics) are
    \<^typ>\<open>int\<close>.
  \<^item> A method that assigns to \<^verbatim>\<open>self\<close> takes the object and returns its result paired
    with the updated object. A method that only reads \<^verbatim>\<open>self\<close> is a function of the
    object returning the result alone.
  \<^item> A raised exception is the \<open>Inl\<close> branch of a sum.
  \<^item> The clock (\<^verbatim>\<open>datetime.now()\<close>) is an argument of every function that reads it.
  \<^item> Number formatting (\<^verbatim>\<open>:.1f\<close>, \<^verbatim>\<open>str(float)\<close>) and number parsing (\<^verbatim>\<open>float(str)\<close>)
    are builtins of the language: they are parameters of the functions that call them.
\<close>

subsection \<open>Double-precision arithmetic\<close>

text \<open>
  IEEE 754 binary64 with the default rounding: a result is rounded to the nearest multiple
  of \<open>2\<^sup>e\<close>, ties to the even multiple, where \<open>e\<close> is the exponent of the result's
  binade less 52 (a significand of 53 bits) and at least \<open>-1074\<close> (the subnormal range).
\<close>

definition pow2 :: "int \<Rightarrow> real" where
  "pow2 e = (if 0 \<le> e then 2 ^ nat e else 1 / 2 ^ nat (- e))"

text \<open>The exponent of the binade of a nonzero number: \<open>2\<^sup>k \<le> \<bar>x\<bar> < 2\<^sup>k\<^sup>+\<^sup>1\<close>.\<close>

definition ilog2 :: "real \<Rightarrow> int" where
  "ilog2 x =
     (if 1 \<le> \<bar>x\<bar> then int (floorlog 2 (nat \<lfloor>\<bar>x\<bar>\<rfloor>)) - 1
      else - int (floorlog 2 (nat (\<lceil>1 / \<bar>x\<bar>\<rceil> - 1))))"

definition round_half_even :: "real \<Rightarrow> int" where
  "round_half_even y =
     (let f = \<lfloor>y\<rfloor>
      in if y - of_int f < 1 / 2 then f
         else if 1 / 2 < y - of_int f then f + 1
         else if even f then f else f + 1)"

definition rnd :: "real \<Rightarrow> real" where
  "rnd x =
     (if x = 0 then 0
      else (let e = max (ilog2 x - 52) (- 1074)
            in of_int (round_half_even (x / pow2 e)) * pow2 e))"

definition fl_add :: "real \<Rightarrow> real \<Rightarrow> real" where
  "fl_add x y = rnd (x + y)"

definition fl_sub :: "real \<Rightarrow> real \<Rightarrow> real" where
  "fl_sub x y = rnd (x - y)"

definition fl_mul :: "real \<Rightarrow> real \<Rightarrow> real" where
  "fl_mul x y = rnd (x * y)"

definition fl_div :: "real \<Rightarrow> real \<Rightarrow> real" where
  "fl_div x y = rnd (x / y)"

text \<open>
  \<^verbatim>\<open>sum\<close> of a generator of floats: the additions run left to right from zero
  (CPython up to 3.11; later versions also compensate the rounding errors of the partial
  sums, which is not modelled).
\<close>

definition py_sum :: "real list \<Rightarrow> real" where
  "py_sum xs = foldl fl_add 0 xs"

subsection \<open>Data model\<close>

datatype py_error = KeyError | ZeroDivisionError

datatype TradeResult = WIN | LOSS | PUSH

record Trade =
  timestamp :: string
  trade_type :: string
  risk_amount :: real
  result :: TradeResult
  payout :: real
  balance_after :: real

definition profit_loss :: "Trade \<Rightarrow> real" where
  "profit_loss t =
     (if result t = WIN then payout t
      else if result t = LOSS then - risk_amount t
      else 0)"

record Session =
  initial_balance :: real
  risk_percent :: real
  payout_percent :: real
  stop_loss_percent :: real
  max_consecutive_losses :: real
  current_balance :: real
  trades :: "Trade list"
  start_time :: nat
  consecutive_wins :: int
  consecutive_losses :: int
  max_balance :: real
  min_balance :: real

text \<open>
  \<^verbatim>\<open>Session.__init__\<close>: the configuration is a dictionary from key names to numbers.
  The three subscripted keys raise \<^verbatim>\<open>KeyError\<close> when absent; the two read with
  \<^verbatim>\<open>.get\<close> have defaults.
\<close>

definition Session_init :: "(string \<rightharpoonup> real) \<Rightarrow> nat \<Rightarrow> py_error + Session" where
  "Session_init config now =
     (case config ''initial_balance'' of
        None \<Rightarrow> Inl KeyError
      | Some ib \<Rightarrow>
         (case config ''risk_percent'' of
            None \<Rightarrow> Inl KeyError
          | Some rp \<Rightarrow>
             (case config ''payout_percent'' of
                None \<Rightarrow> Inl KeyError
              | Some pp \<Rightarrow>
                 Inr \<lparr> initial_balance = ib,
                       risk_percent = rp,
                       payout_percent = pp,
                       stop_loss_percent =
                         (case config ''stop_loss_percent'' of None \<Rightarrow> 20 | Some v \<Rightarrow> v),
                       max_consecutive_losses =
                         (case config ''max_consecutive_losses'' of None \<Rightarrow> 5 | Some v \<Rightarrow> v),
                       current_balance = ib,
                       trades = [],
                       start_time = now,
                       consecutive_wins = 0,
                       consecutive_losses = 0,
                       max_balance = ib,
                       min_balance = ib \<rparr>)))"

subsection \<open>Ledger operations\<close>

definition current_risk_amount :: "Session \<Rightarrow> real" where
  "current_risk_amount s = fl_mul (current_balance s) (fl_div (risk_percent s) 100)"

text \<open>
  \<^verbatim>\<open>add_trade(result, trade_type, custom_risk)\<close>; \<open>ts\<close> is the formatted clock reading
  stored in the trade. The conditional expression \<^verbatim>\<open>custom_risk if custom_risk else ...\<close>
  tests the truth value of \<^verbatim>\<open>custom_risk\<close>: \<^verbatim>\<open>None\<close> and \<^verbatim>\<open>0.0\<close> are both falsy.
\<close>

definition add_trade ::
  "TradeResult \<Rightarrow> string \<Rightarrow> real option \<Rightarrow> string \<Rightarrow> Session \<Rightarrow> Trade \<times> Session" where
  "add_trade res ttype custom_risk ts s =
     (let risk = (case custom_risk of
                    None \<Rightarrow> current_risk_amount s
                  | Some r \<Rightarrow> if r \<noteq> 0 then r else current_risk_amount s);
          (pay, s1) =
            (if res = WIN then
               (let p = fl_mul risk (fl_div (payout_percent s) 100)
                in (p, s\<lparr> current_balance := fl_add (current_balance s) p,
                          consecutive_wins := consecutive_wins s + 1,
                          consecutive_losses := 0 \<rparr>))
             else if res = LOSS then
               (0, s\<lparr> current_balance := fl_sub (current_balance s) risk,
                      consecutive_losses := consecutive_losses s + 1,
                      consecutive_wins := 0 \<rparr>)
             else (0, s));
          trade = \<lparr> timestamp = ts,
                    trade_type = ttype,
                    risk_amount = risk,
                    result = res,
                    payout = pay,
                    balance_after = current_balance s1 \<rparr>;
          s2 = s1\<lparr> trades := trades s1 @ [trade] \<rparr>;
          s3 = s2\<lparr> max_balance := max (max_balance s2) (current_balance s2) \<rparr>;
          s4 = s3\<lparr> min_balance := min (min_balance s3) (current_balance s3) \<rparr>
      in (trade, s4))"

text \<open>
  The loop of \<^verbatim>\<open>_recalculate_streaks\<close> over \<^verbatim>\<open>reversed(self.trades)\<close>: the list argument
  is what remains to be visited, most recent trade first; each \<^verbatim>\<open>break\<close> returns the
  object as it is.
\<close>

fun streak_loop :: "Trade list \<Rightarrow> Session \<Rightarrow> Session" where
  "streak_loop [] s = s"
| "streak_loop (t # ts) s =
     (if result t = WIN then
        (if consecutive_losses s > 0 then s
         else streak_loop ts (s\<lparr> consecutive_wins := consecutive_wins s + 1 \<rparr>))
      else if result t = LOSS then
        (if consecutive_wins s > 0 then s
         else streak_loop ts (s\<lparr> consecutive_losses := consecutive_losses s + 1 \<rparr>))
      else s)"

definition recalculate_streaks :: "Session \<Rightarrow> Session" where
  "recalculate_streaks s =
     streak_loop (rev (trades s)) (s\<lparr> consecutive_wins := 0, consecutive_losses := 0 \<rparr>)"

definition undo_last_trade :: "Session \<Rightarrow> bool \<times> Session" where
  "undo_last_trade s =
     (if trades s = [] then (False, s)
      else
        (let s1 = s\<lparr> trades := butlast (trades s) \<rparr>;
             s2 = (if length (trades s1) > 0
                   then s1\<lparr> current_balance := balance_after (last (trades s1)) \<rparr>
                   else s1\<lparr> current_balance := initial_balance s1 \<rparr>)
         in (True, recalculate_streaks s2)))"




record Stats =
  total_trades :: int
  wins :: int
  losses :: int
  pushes :: int
  win_rate :: real
  total_pl :: real
  roi_percent :: real
  expectancy :: real
  avg_win :: real
  avg_loss :: real
  max_drawdown_percent :: real
  current_streak :: int
  breakeven_wr :: real

text \<open>
  \<^verbatim>\<open>stats\<close>. The divisions by \<^verbatim>\<open>initial_balance\<close> and by
  \<^verbatim>\<open>1 + payout_percent / 100\<close> raise when the divisor is zero; the divisions by the
  lengths are guarded in the source.
\<close>

definition stats :: "Session \<Rightarrow> py_error + Stats" where
  "stats s =
     (if trades s = [] then
        Inr \<lparr> total_trades = 0, wins = 0, losses = 0, pushes = 0, win_rate = 0,
              total_pl = 0, roi_percent = 0, expectancy = 0, avg_win = 0, avg_loss = 0,
              max_drawdown_percent = 0, current_streak = 0, breakeven_wr = 0 \<rparr>
      else
        (let ws = filter (\<lambda>t. result t = WIN) (trades s);
             ls = filter (\<lambda>t. result t = LOSS) (trades s);
             ps = filter (\<lambda>t. result t = PUSH) (trades s);
             total = int (length (trades s));
             win_count = int (length ws);
             loss_count = int (length ls);
             wr = (if total > 0
                   then fl_mul (fl_div (real_of_int win_count) (real_of_int total)) 100
                   else 0);
             pl = fl_sub (current_balance s) (initial_balance s)
         in if initial_balance s = 0 then Inl ZeroDivisionError
            else
              (let roi = fl_mul (fl_div pl (initial_balance s)) 100;
                   aw = (if ws \<noteq> [] then fl_div (py_sum (map payout ws)) (real (length ws))
                         else 0);
                   al = (if ls \<noteq> []
                         then fl_div (py_sum (map risk_amount ls)) (real (length ls))
                         else 0);
                   ex = fl_sub (fl_mul (fl_div wr 100) aw)
                          (fl_mul (fl_div (fl_sub 100 wr) 100) al);
                   max_dd = fl_mul (fl_div (fl_sub (initial_balance s) (min_balance s))
                                      (initial_balance s)) 100;
                   den = fl_add 1 (fl_div (payout_percent s) 100)
               in if den = 0 then Inl ZeroDivisionError
                  else
                    (let be = fl_div 100 den;
                         streak = (if consecutive_wins s > 0 then consecutive_wins s
                                   else - consecutive_losses s)
                     in Inr \<lparr> total_trades = total, wins = win_count, losses = loss_count,
                                pushes = int (length ps), win_rate = wr, total_pl = pl,
                                roi_percent = roi, expectancy = ex, avg_win = aw,
                                avg_loss = al, max_drawdown_percent = max_dd,
                                current_streak = streak, breakeven_wr = be \<rparr>))))"

subsection \<open>Command interpreter\<close>

record BinOptTUI =
  session :: Session
  scroll_offset :: int
  status_message :: string
  command_buffer :: string
  mode :: string

text \<open>
  \<^verbatim>\<open>str.strip()\<close> and \<^verbatim>\<open>str.split()\<close> without argument, on strings whose characters are
  code points below 256; \<open>is_space\<close> is \<^verbatim>\<open>str.isspace\<close> there.
\<close>

definition is_space :: "char \<Rightarrow> bool" where
  "is_space c \<longleftrightarrow> (of_char c :: nat) \<in> {9, 10, 11, 12, 13, 28, 29, 30, 31, 32, 133, 160}"

definition py_strip :: "string \<Rightarrow> string" where
  "py_strip s = rev (dropWhile is_space (rev (dropWhile is_space s)))"

fun split_loop :: "string \<Rightarrow> string \<Rightarrow> string list" where
  "split_loop w [] = (if w = [] then [] else [w])"
| "split_loop w (c # cs) =
     (if is_space c then (if w = [] then split_loop [] cs else w # split_loop [] cs)
      else split_loop (w @ [c]) cs)"

definition py_split :: "string \<Rightarrow> string list" where
  "py_split s = split_loop [] s"

text \<open>
  The \<^verbatim>\<open>reset\<close> branch of \<^verbatim>\<open>handle_command\<close> builds a new session from a dictionary
  of three keys.
\<close>

definition reset_config :: "Session \<Rightarrow> (string \<rightharpoonup> real)" where
  "reset_config s =
     [''initial_balance'' \<mapsto> initial_balance s,
      ''risk_percent'' \<mapsto> risk_percent s,
      ''payout_percent'' \<mapsto> payout_percent s]"

text \<open>
  \<^verbatim>\<open>handle_command\<close>; \<open>parse_float\<close> is \<^verbatim>\<open>float(str)\<close> with \<open>None\<close> for
  \<^verbatim>\<open>ValueError\<close>, \<open>str_float\<close> is \<^verbatim>\<open>str(float)\<close>. The result is the returned value
  (\<open>Some ''QUIT''\<close> or \<open>None\<close>) and the updated object.
\<close>

definition handle_command ::
  "(string \<Rightarrow> real option) \<Rightarrow> (real \<Rightarrow> string) \<Rightarrow> nat \<Rightarrow> string \<Rightarrow> BinOptTUI
     \<Rightarrow> py_error + (string option \<times> BinOptTUI)" where
  "handle_command parse_float str_float now cmd tui =
     (let parts = py_split (py_strip cmd)
      in case parts of
           [] \<Rightarrow> Inr (None, tui)
         | command # _ \<Rightarrow>
             if command \<in> {''q'', ''quit''} then Inr (Some ''QUIT'', tui)
             else if command = ''w'' then
               Inr (None, tui\<lparr> status_message := ''Session saved (not implemented yet)'' \<rparr>)
             else if command = ''wq'' then Inr (Some ''QUIT'', tui)
             else if command = ''reset'' then
               (case Session_init (reset_config (session tui)) now of
                  Inl e \<Rightarrow> Inl e
                | Inr s' \<Rightarrow> Inr (None, tui\<lparr> session := s', status_message := ''Session reset'' \<rparr>))
             else if command = ''risk'' \<and> length parts > 1 then
               (case parse_float (parts ! 1) of
                  Some v \<Rightarrow>
                    Inr (None, tui\<lparr> session := (session tui)\<lparr> risk_percent := v \<rparr>,
                                    status_message := ''Risk set to '' @ str_float v @ ''%'' \<rparr>)
                | None \<Rightarrow> Inr (None, tui\<lparr> status_message := ''Invalid risk value'' \<rparr>))
             else if command = ''payout'' \<and> length parts > 1 then
               (case parse_float (parts ! 1) of
                  Some v \<Rightarrow>
                    Inr (None, tui\<lparr> session := (session tui)\<lparr> payout_percent := v \<rparr>,
                                    status_message := ''Payout set to '' @ str_float v @ ''%'' \<rparr>)
                | None \<Rightarrow> Inr (None, tui\<lparr> status_message := ''Invalid payout value'' \<rparr>))
             else if command = ''help'' then
               Inr (None, tui\<lparr> status_message :=
                      ''w=win l=loss p=push dd=undo :q=quit :risk N :payout N'' \<rparr>)
             else Inr (None, tui\<lparr> status_message := ''Unknown command: '' @ command \<rparr>))"

subsection \<open>Sequences of ledger operations\<close>

text \<open>
  The operations that change a session: \<^verbatim>\<open>add_trade\<close> and \<^verbatim>\<open>undo_last_trade\<close>
  (keys of the normal mode), and the \<^verbatim>\<open>reset\<close>, \<^verbatim>\<open>risk\<close> and \<^verbatim>\<open>payout\<close> commands.
\<close>

datatype ledger_op =
    Record TradeResult string "real option" string
  | Undo
  | Reset nat
  | SetRisk real
  | SetPayout real

fun apply_op :: "Session \<Rightarrow> ledger_op \<Rightarrow> Session" where
  "apply_op s (Record res ttype custom_risk ts) = snd (add_trade res ttype custom_risk ts s)"
| "apply_op s Undo = snd (undo_last_trade s)"
| "apply_op s (Reset now) =
     (case Session_init (reset_config s) now of Inl e \<Rightarrow> s | Inr s' \<Rightarrow> s')"
    \<comment> \<open>the three keys are present: the constructor returns (lemma \<open>reset_total\<close>)\<close>
| "apply_op s (SetRisk v) = s\<lparr> risk_percent := v \<rparr>"
| "apply_op s (SetPayout v) = s\<lparr> payout_percent := v \<rparr>"

definition run_ops :: "Session \<Rightarrow> ledger_op list \<Rightarrow> Session" where
  "run_ops s ops = foldl apply_op s ops"

fun is_record :: "ledger_op \<Rightarrow> bool" where
  "is_record (Record _ _ _ _) = True"
| "is_record _ = False"

subsection \<open>Notions of the specification\<close>


text \<open>
  The profit and loss of a history applied to a starting balance one trade at a time, oldest
  first, each addition rounded to a double; a PUSH, whose profit and loss is zero, leaves
  the balance as it is.
\<close>

definition balance_from :: "real \<Rightarrow> Trade list \<Rightarrow> real" where
  "balance_from b ts =
     foldl (\<lambda>b t. if result t = PUSH then b else fl_add b (profit_loss t)) b ts"

text \<open>
  Replaying \<^verbatim>\<open>record\<close> from scratch over a history: one \<^verbatim>\<open>add_trade\<close> call per trade of
  the history, oldest first, with the outcome, label, risk amount and time of that trade.
\<close>

definition replay :: "Session \<Rightarrow> Trade list \<Rightarrow> Session" where
  "replay s0 ts =
     run_ops s0
       (map (\<lambda>t. Record (result t) (trade_type t) (Some (risk_amount t)) (timestamp t)) ts)"

text \<open>The trades of a history that follow its last PUSH (all of them when it has none).\<close>

definition after_last_push :: "Trade list \<Rightarrow> Trade list" where
  "after_last_push ts = rev (takeWhile (\<lambda>t. result t \<noteq> PUSH) (rev ts))"

text \<open>The invariants of the ledger.\<close>

definition balance_replayed :: "Session \<Rightarrow> bool" where
  "balance_replayed s \<longleftrightarrow>
     current_balance s = balance_from (initial_balance s) (trades s)"

definition balance_snapshot :: "Session \<Rightarrow> bool" where
  "balance_snapshot s \<longleftrightarrow>
     current_balance s =
       (if trades s = [] then initial_balance s else balance_after (last (trades s)))"

definition streaks_exclusive :: "Session \<Rightarrow> bool" where
  "streaks_exclusive s \<longleftrightarrow>
     0 \<le> consecutive_wins s \<and> 0 \<le> consecutive_losses s \<and>
     (consecutive_wins s = 0 \<or> consecutive_losses s = 0)"

subsection \<open>Concrete inputs\<close>

text \<open>The default configuration of the program without the two optional keys.\<close>

definition demo_config :: "string \<rightharpoonup> real" where
  "demo_config =
     [''initial_balance'' \<mapsto> 2000, ''risk_percent'' \<mapsto> 5, ''payout_percent'' \<mapsto> 80]"

definition demo_session :: Session where
  "demo_session =
     \<lparr> initial_balance = 2000, risk_percent = 5, payout_percent = 80, stop_loss_percent = 20,
       max_consecutive_losses = 5, current_balance = 2000, trades = [], start_time = 0,
       consecutive_wins = 0, consecutive_losses = 0, max_balance = 2000, min_balance = 2000 \<rparr>"

definition demo_tui :: BinOptTUI where
  "demo_tui =
     \<lparr> session = demo_session, scroll_offset = 0, status_message = ''Session Active'',
       command_buffer = [], mode = ''NORMAL'' \<rparr>"

definition demo_parse :: "string \<Rightarrow> real option" where
  "demo_parse a = (if a = ''7'' then Some 7 else None)"

definition demo_str :: "real \<Rightarrow> string" where
  "demo_str v = (if v = 7 then ''7.0'' else ''?'')"





definition three_wins :: "ledger_op list" where
  "three_wins =
     [Record WIN ''CALL'' None ''10:00:00'', Record WIN ''CALL'' None ''10:01:00'',
      Record WIN ''CALL'' None ''10:02:00'']"

definition push_history :: "ledger_op list" where
  "push_history =
     [Record WIN ''CALL'' None ''10:00:00'', Record PUSH ''CALL'' None ''10:01:00'',
      Record LOSS ''CALL'' None ''10:02:00'', Undo]"

definition win_loss_push :: "ledger_op list" where
  "win_loss_push =
     [Record WIN ''CALL'' None ''10:00:00'', Record LOSS ''PUT'' (Some 50) ''10:01:00'',
      Record PUSH ''CALL'' None ''10:02:00'']"

section \<open>Properties\<close>

subsection \<open>Construction and sequences\<close>

lemmas eval_simps = run_ops_def add_trade_def undo_last_trade_def recalculate_streaks_def
  current_risk_amount_def demo_session_def Let_def

lemmas fl_eval = fl_add_def fl_sub_def fl_mul_def fl_div_def rnd_def ilog2_def pow2_def
  round_half_even_def compute_floorlog

subsection \<open>The rounding\<close>

text \<open>
  \<open>ilog2\<close> is the exponent of the binade, and \<open>rnd\<close> returns a multiple of the unit
  of that binade that is at most half a unit away.
\<close>

lemma pow2_pos: "0 < pow2 e"
  by (simp add: pow2_def)

lemma ilog2_bounds:
  assumes "x \<noteq> 0"
  shows "pow2 (ilog2 x) \<le> \<bar>x\<bar> \<and> \<bar>x\<bar> < pow2 (ilog2 x + 1)"
proof (cases "1 \<le> \<bar>x\<bar>")
  case True
  define n where "n = nat \<lfloor>\<bar>x\<bar>\<rfloor>"
  define k where "k = floorlog 2 n"
  have n: "0 < n" "real n \<le> \<bar>x\<bar>" "\<bar>x\<bar> < real n + 1"
    using True unfolding n_def by linarith+
  have b: "2 ^ (k - 1) \<le> n" "n < 2 ^ k"
    using floorlog_bounds[of n 2] n(1) unfolding k_def by simp_all
  have k: "0 < k" using b(2) n(1) by (cases k) simp_all
  have "real n + 1 \<le> 2 ^ k"
    using b(2) by (metis Suc_leI of_nat_Suc of_nat_le_iff of_nat_numeral of_nat_power add.commute semiring_1_class.of_nat_simps(2))
  moreover have "(2::real) ^ (k - 1) \<le> real n"
    using b(1) by (metis of_nat_le_iff of_nat_numeral of_nat_power)
  moreover have "ilog2 x = int k - 1"
    using True by (simp add: ilog2_def k_def n_def)
  moreover have "pow2 (int k - 1) = 2 ^ (k - 1)" "pow2 (int k - 1 + 1) = 2 ^ k"
    using k by (simp_all add: pow2_def nat_diff_distrib')
  ultimately show ?thesis
    using n by (metis le_less_trans less_le_trans order_trans)
next
  case False
  define y where "y = 1 / \<bar>x\<bar>"
  define n where "n = nat (\<lceil>y\<rceil> - 1)"
  define k where "k = floorlog 2 n"
  have y: "1 < y" using False assms by (simp add: y_def)
  have n: "0 < n" "real n < y" "y \<le> real n + 1"
    using y unfolding n_def by linarith+
  have b: "2 ^ (k - 1) \<le> n" "n < 2 ^ k"
    using floorlog_bounds[of n 2] n(1) unfolding k_def by simp_all
  have k: "0 < k" using b(2) n(1) by (cases k) simp_all
  have u: "real n + 1 \<le> 2 ^ k"
    using b(2) by (metis Suc_leI of_nat_Suc of_nat_le_iff of_nat_numeral of_nat_power add.commute semiring_1_class.of_nat_simps(2))
  have l: "(2::real) ^ (k - 1) \<le> real n"
    using b(1) by (metis of_nat_le_iff of_nat_numeral of_nat_power)
  have i: "ilog2 x = - int k"
    using False by (simp add: ilog2_def k_def n_def y_def)
  have x: "\<bar>x\<bar> = 1 / y" "0 < \<bar>x\<bar>" using assms by (simp_all add: y_def)
  have yu: "y \<le> 2 ^ k" using u n(3) by linarith
  have yl: "2 ^ (k - 1) < y" using l n(2) by linarith
  have "1 / 2 ^ k \<le> \<bar>x\<bar>"
    unfolding x(1) using le_imp_inverse_le[OF yu] y by (simp add: inverse_eq_divide)
  moreover have "\<bar>x\<bar> < 1 / 2 ^ (k - 1)"
    unfolding x(1) using less_imp_inverse_less[OF yl] by (simp add: inverse_eq_divide)
  moreover have "pow2 (- int k) = 1 / 2 ^ k"
    using k by (simp add: pow2_def)
  moreover have "pow2 (- int k + 1) = 1 / 2 ^ (k - 1)"
  proof (cases k)
    case 0
    then show ?thesis using k by simp
  next
    case (Suc j)
    then show ?thesis by (cases j) (simp_all add: pow2_def nat_add_distrib)
  qed
  ultimately show ?thesis
    unfolding i by simp
qed


lemma round_half_even_near: "\<bar>of_int (round_half_even y) - y\<bar> \<le> 1 / 2"
proof -
  have "of_int \<lfloor>y\<rfloor> \<le> y" "y < of_int \<lfloor>y\<rfloor> + 1"
    by linarith+
  then show ?thesis
    by (auto simp: round_half_even_def Let_def)
qed

lemma rnd_error:
  assumes "x \<noteq> 0"
  shows "\<bar>rnd x - x\<bar> \<le> pow2 (max (ilog2 x - 52) (- 1074)) / 2"
proof -
  define p where "p = pow2 (max (ilog2 x - 52) (- 1074))"
  have p: "0 < p" by (simp add: p_def pow2_pos)
  have "rnd x - x = (of_int (round_half_even (x / p)) - x / p) * p"
    using assms p by (simp add: rnd_def Let_def p_def algebra_simps)
  then have "\<bar>rnd x - x\<bar> = \<bar>of_int (round_half_even (x / p)) - x / p\<bar> * p"
    using p by (simp add: abs_mult)
  also have "\<dots> \<le> 1 / 2 * p"
    using round_half_even_near[of "x / p"] p by (intro mult_right_mono) simp_all
  finally show ?thesis by (simp add: p_def)
qed

subsection \<open>Rounding at the values used below\<close>

text \<open>
  Each line is one rounded operation on doubles written as fractions:
  \<open>3602879701896397 / 72057594037927936\<close> is the double \<^verbatim>\<open>0.05\<close>,
  \<open>3602879701896397 / 4503599627370496\<close> the double \<^verbatim>\<open>0.8\<close> and
  \<open>5224175567749775 / 18014398509481984\<close> the double \<^verbatim>\<open>0.29\<close>.
\<close>

lemma fl_percent:
  "fl_div 5 100 = 3602879701896397 / 72057594037927936"
  "fl_div 80 100 = 3602879701896397 / 4503599627370496"
  "fl_div 29 100 = 5224175567749775 / 18014398509481984"
  by (simp_all add: fl_eval)

lemma fl_first_win:
  "fl_mul 2000 (3602879701896397 / 72057594037927936) = 100"
  "fl_mul 100 (3602879701896397 / 4503599627370496) = 80"
  "fl_add 2000 80 = 2080"
  by (simp_all add: fl_eval)

lemma fl_second_win:
  "fl_mul 2080 (3602879701896397 / 72057594037927936) = 104"
  "fl_mul 104 (3602879701896397 / 4503599627370496) = 5854679515581645 / 70368744177664"
  "fl_add 2080 (5854679515581645 / 70368744177664) = 2378463553205043 / 1099511627776"
  by (simp_all add: fl_eval)

lemma fl_third_win:
  "fl_mul (2378463553205043 / 1099511627776) (3602879701896397 / 72057594037927936)
     = 3805541685128069 / 35184372088832"
  "fl_mul (3805541685128069 / 35184372088832) (3602879701896397 / 4503599627370496)
     = 6088866696204911 / 70368744177664"
  "fl_add (2378463553205043 / 1099511627776) (6088866696204911 / 70368744177664)
     = 4947204190666489 / 2199023255552"
  by (simp_all add: fl_eval)

lemma fl_payout_sum:
  "fl_add 0 80 = 80"
  "fl_add 80 (5854679515581645 / 70368744177664) = 2871044762448691 / 17592186044416"
  "fl_add (2871044762448691 / 17592186044416) (6088866696204911 / 70368744177664)
     = 4393261436499919 / 17592186044416"
  "fl_add 2000 (4393261436499919 / 17592186044416) = 2473602095333245 / 1099511627776"
  by (simp_all add: fl_eval)

lemma fl_loss_29:
  "fl_mul 2000 (5224175567749775 / 18014398509481984) = 580"
  "fl_sub 2000 580 = 1420"
  "fl_sub 2000 1420 = 580"
  "fl_div 580 2000 = 5224175567749775 / 18014398509481984"
  "fl_mul (5224175567749775 / 18014398509481984) 100 = 8162774324609023 / 281474976710656"
  by (simp_all add: fl_eval)

lemma fl_misc:
  "fl_sub 2000 100 = 1900"
  "fl_sub 2080 50 = 2030"
  "fl_add 2080 (- 50) = 2030"
  "fl_mul 2030 (3602879701896397 / 72057594037927936) = 203 / 2"
  "fl_sub 2030 (203 / 2) = 3857 / 2"
  "fl_sub 2000 1500 = 500"
  "fl_div 500 2000 = 1 / 4"
  "fl_mul (1 / 4) 100 = 25"
  "fl_sub 2000 2000 = 0"
  "fl_div 0 2000 = 0"
  "fl_mul 0 100 = 0"
  by (simp_all add: fl_eval)

lemmas fl_facts = fl_percent fl_first_win fl_second_win fl_third_win fl_payout_sum fl_loss_29
  fl_misc


lemma demo_init: "Session_init demo_config 0 = Inr demo_session"
  by (simp add: Session_init_def demo_config_def demo_session_def)

lemma Session_init_fresh:
  assumes "Session_init config now = Inr s"
  shows "trades s = []" and "current_balance s = initial_balance s"
    and "consecutive_wins s = 0" and "consecutive_losses s = 0"
  using assms by (auto simp: Session_init_def split: option.splits)

lemma reset_total: "\<exists>s'. Session_init (reset_config s) now = Inr s'"
  by (simp add: Session_init_def reset_config_def)

lemma run_ops_Nil: "run_ops s [] = s"
  by (simp add: run_ops_def)

lemma run_ops_snoc: "run_ops s (ops @ [x]) = apply_op (run_ops s ops) x"
  by (simp add: run_ops_def)

subsection \<open>The effect of \<open>add_trade\<close>, field by field\<close>

lemma add_trade_trades:
  "trades (snd (add_trade r ty cr ts s)) = trades s @ [fst (add_trade r ty cr ts s)]"
  by (simp add: add_trade_def Let_def split: prod.splits)

lemma add_trade_initial:
  "initial_balance (snd (add_trade r ty cr ts s)) = initial_balance s"
  by (simp add: add_trade_def Let_def split: prod.splits)

lemma add_trade_snapshot:
  "balance_after (fst (add_trade r ty cr ts s)) = current_balance (snd (add_trade r ty cr ts s))"
  by (simp add: add_trade_def Let_def split: prod.splits)

lemma add_trade_balance:
  "current_balance (snd (add_trade r ty cr ts s)) =
     (if r = PUSH then current_balance s
      else fl_add (current_balance s) (profit_loss (fst (add_trade r ty cr ts s))))"
  by (cases r) (simp_all add: add_trade_def Let_def profit_loss_def fl_add_def fl_sub_def)

lemma add_trade_result: "result (fst (add_trade r ty cr ts s)) = r"
  by (simp add: add_trade_def Let_def split: prod.splits)

lemma add_trade_wins:
  "consecutive_wins (snd (add_trade r ty cr ts s)) =
     (case r of WIN \<Rightarrow> consecutive_wins s + 1 | LOSS \<Rightarrow> 0 | PUSH \<Rightarrow> consecutive_wins s)"
  by (cases r) (simp_all add: add_trade_def Let_def)

lemma add_trade_losses:
  "consecutive_losses (snd (add_trade r ty cr ts s)) =
     (case r of WIN \<Rightarrow> 0 | LOSS \<Rightarrow> consecutive_losses s + 1 | PUSH \<Rightarrow> consecutive_losses s)"
  by (cases r) (simp_all add: add_trade_def Let_def)

lemma add_trade_risk:
  "risk_amount (fst (add_trade r ty cr ts s)) =
     (case cr of None \<Rightarrow> current_risk_amount s
      | Some v \<Rightarrow> if v \<noteq> 0 then v else current_risk_amount s)"
  by (simp add: add_trade_def Let_def split: prod.splits)

subsection \<open>The backward scan and \<open>undo_last_trade\<close>\<close>

lemma streak_loop_other:
  "trades (streak_loop ts s) = trades s"
  "current_balance (streak_loop ts s) = current_balance s"
  "initial_balance (streak_loop ts s) = initial_balance s"
  by (induction ts s rule: streak_loop.induct; simp)+

lemma streak_loop_exclusive: "streaks_exclusive s \<Longrightarrow> streaks_exclusive (streak_loop ts s)"
  by (induction ts s rule: streak_loop.induct) (auto simp: streaks_exclusive_def)

text \<open>
  What the scan counts: started with no loss counted it adds the run of wins at the head of
  the list, and symmetrically.
\<close>

lemma streak_loop_wins:
  "0 \<le> consecutive_losses s \<Longrightarrow>
   consecutive_wins (streak_loop ys s) =
     (if consecutive_losses s > 0 then consecutive_wins s
      else consecutive_wins s + int (length (takeWhile (\<lambda>t. result t = WIN) ys)))"
  by (induction ys s rule: streak_loop.induct) auto

lemma streak_loop_losses:
  "0 \<le> consecutive_wins s \<Longrightarrow>
   consecutive_losses (streak_loop ys s) =
     (if consecutive_wins s > 0 then consecutive_losses s
      else consecutive_losses s + int (length (takeWhile (\<lambda>t. result t = LOSS) ys)))"
  by (induction ys s rule: streak_loop.induct) auto

lemma undo_trades: "trades (snd (undo_last_trade s)) = butlast (trades s)"
  by (simp add: undo_last_trade_def recalculate_streaks_def Let_def streak_loop_other)

lemma undo_balance:
  "trades s \<noteq> [] \<Longrightarrow> current_balance (snd (undo_last_trade s)) =
     (if butlast (trades s) = [] then initial_balance s
      else balance_after (last (butlast (trades s))))"
  by (simp add: undo_last_trade_def recalculate_streaks_def Let_def streak_loop_other)

lemma undo_initial: "initial_balance (snd (undo_last_trade s)) = initial_balance s"
  by (simp add: undo_last_trade_def recalculate_streaks_def Let_def streak_loop_other)

lemma undo_streaks:
  assumes "trades s \<noteq> []"
  shows "consecutive_wins (snd (undo_last_trade s)) =
           int (length (takeWhile (\<lambda>t. result t = WIN) (rev (butlast (trades s)))))"
    and "consecutive_losses (snd (undo_last_trade s)) =
           int (length (takeWhile (\<lambda>t. result t = LOSS) (rev (butlast (trades s)))))"
  using assms
  by (simp_all add: undo_last_trade_def recalculate_streaks_def Let_def
        streak_loop_wins streak_loop_losses)

subsection \<open>Invariants along a sequence of operations\<close>

lemma add_trade_exclusive:
  "streaks_exclusive s \<Longrightarrow> streaks_exclusive (snd (add_trade r ty cr ts s))"
  by (cases r) (simp_all add: streaks_exclusive_def add_trade_wins add_trade_losses)

lemma undo_exclusive: "streaks_exclusive s \<Longrightarrow> streaks_exclusive (snd (undo_last_trade s))"
  by (auto simp: undo_last_trade_def recalculate_streaks_def Let_def streaks_exclusive_def
      intro!: streak_loop_exclusive[unfolded streaks_exclusive_def])

lemma apply_op_exclusive: "streaks_exclusive s \<Longrightarrow> streaks_exclusive (apply_op s x)"
proof (cases x)
  case (Reset now)
  then show ?thesis
    by (simp add: Session_init_def reset_config_def streaks_exclusive_def)
qed (simp_all add: add_trade_exclusive undo_exclusive, simp_all add: streaks_exclusive_def)

lemma run_ops_exclusive: "streaks_exclusive s \<Longrightarrow> streaks_exclusive (run_ops s ops)"
  by (induction ops rule: rev_induct) (simp_all add: run_ops_Nil run_ops_snoc apply_op_exclusive)

lemma add_trade_balance_snapshot: "balance_snapshot (snd (add_trade r ty cr ts s))"
  by (simp add: balance_snapshot_def add_trade_trades add_trade_snapshot)

lemma undo_balance_snapshot:
  "balance_snapshot s \<Longrightarrow> balance_snapshot (snd (undo_last_trade s))"
  by (cases "trades s = []")
     (simp_all add: balance_snapshot_def undo_trades undo_balance undo_initial,
      simp add: undo_last_trade_def)

lemma apply_op_balance_snapshot: "balance_snapshot s \<Longrightarrow> balance_snapshot (apply_op s x)"
proof (cases x)
  case (Reset now)
  then show ?thesis
    by (simp add: Session_init_def reset_config_def balance_snapshot_def)
qed (simp_all add: add_trade_balance_snapshot undo_balance_snapshot,
     simp_all add: balance_snapshot_def)

lemma run_ops_balance_snapshot: "balance_snapshot s \<Longrightarrow> balance_snapshot (run_ops s ops)"
  by (induction ops rule: rev_induct)
     (simp_all add: run_ops_Nil run_ops_snoc apply_op_balance_snapshot)

lemma record_undo_restores:
  assumes "balance_snapshot s"
  shows "current_balance (snd (undo_last_trade (snd (add_trade r ty cr ts s)))) =
           current_balance s"
    and "trades (snd (undo_last_trade (snd (add_trade r ty cr ts s)))) = trades s"
  using assms
  by (simp_all add: undo_trades undo_balance add_trade_trades add_trade_initial
        balance_snapshot_def)

lemma run_records_balance:
  "balance_replayed s \<Longrightarrow> list_all is_record ops \<Longrightarrow>
     balance_replayed (run_ops s ops)
     \<and> length (trades (run_ops s ops)) = length (trades s) + length ops
     \<and> initial_balance (run_ops s ops) = initial_balance s"
proof (induction ops rule: rev_induct)
  case Nil
  then show ?case by (simp add: run_ops_Nil)
next
  case (snoc x xs)
  then obtain r ty cr ts where x: "x = Record r ty cr ts"
    by (cases x) simp_all
  from snoc have ih: "balance_replayed (run_ops s xs)"
      "length (trades (run_ops s xs)) = length (trades s) + length xs"
      "initial_balance (run_ops s xs) = initial_balance s"
    by simp_all
  show ?case
    using ih unfolding x run_ops_snoc
    by (simp add: balance_replayed_def balance_from_def add_trade_trades add_trade_initial
          add_trade_balance add_trade_result)
qed

subsection \<open>Replay\<close>

lemma replay_snoc:
  "replay s0 (ts @ [t]) =
     snd (add_trade (result t) (trade_type t) (Some (risk_amount t)) (timestamp t) (replay s0 ts))"
  by (simp add: replay_def run_ops_snoc)

lemma replay_streaks:
  assumes "consecutive_wins s0 = 0" and "consecutive_losses s0 = 0"
    and "\<forall>t \<in> set ts. result t \<noteq> PUSH"
  shows "consecutive_wins (replay s0 ts) =
           int (length (takeWhile (\<lambda>t. result t = WIN) (rev ts)))
       \<and> consecutive_losses (replay s0 ts) =
           int (length (takeWhile (\<lambda>t. result t = LOSS) (rev ts)))"
  using assms(3)
proof (induction ts rule: rev_induct)
  case Nil
  then show ?case using assms(1,2) by (simp add: replay_def run_ops_Nil)
next
  case (snoc t ts)
  then show ?case
    by (cases "result t") (simp_all add: replay_snoc add_trade_wins add_trade_losses)
qed

lemma takeWhile_narrow:
  "(\<And>x. P x \<Longrightarrow> Q x) \<Longrightarrow> takeWhile P (takeWhile Q ys) = takeWhile P ys"
  by (induction ys) auto

lemma after_last_push_no_push: "\<forall>t \<in> set (after_last_push ts). result t \<noteq> PUSH"
  by (auto simp: after_last_push_def dest: set_takeWhileD)

lemma after_last_push_run:
  "r \<noteq> PUSH \<Longrightarrow>
   takeWhile (\<lambda>t. result t = r) (rev (after_last_push ts)) =
   takeWhile (\<lambda>t. result t = r) (rev ts)"
  unfolding after_last_push_def rev_rev_ident
  by (rule takeWhile_narrow) simp

lemma after_last_push_id: "\<forall>t \<in> set ts. result t \<noteq> PUSH \<Longrightarrow> after_last_push ts = ts"
  by (simp add: after_last_push_def takeWhile_eq_all_conv[THEN iffD2])

text \<open>
  On a surviving history without PUSH the backward scan of the undo and the replay of
  \<^verbatim>\<open>record\<close> over the whole surviving history agree.
\<close>

lemma undo_streaks_replay_no_push:
  assumes "trades s \<noteq> []" and "Session_init config now = Inr s0"
    and "\<forall>t \<in> set (butlast (trades s)). result t \<noteq> PUSH"
  shows "consecutive_wins (snd (undo_last_trade s)) =
           consecutive_wins (replay s0 (butlast (trades s)))
       \<and> consecutive_losses (snd (undo_last_trade s)) =
           consecutive_losses (replay s0 (butlast (trades s)))"
proof -
  have z: "consecutive_wins s0 = 0" "consecutive_losses s0 = 0"
    using assms(2) by (rule Session_init_fresh)+
  show ?thesis
    using replay_streaks[OF z assms(3)] by (simp add: undo_streaks[OF assms(1)])
qed

section \<open>The claims\<close>

subsection \<open>C1: statistics of an empty history\<close>

text \<open>
  C1, as stated, fails: on an empty history \<^verbatim>\<open>stats\<close> returns the dictionary of the early
  return, whose \<^verbatim>\<open>breakeven_wr\<close> is the literal \<^verbatim>\<open>0.0\<close>. For the session of the default
  configuration (payout 80 percent) the result is not the all-zero dictionary with
  \<^verbatim>\<open>breakeven_wr\<close> set to \<open>100 / (1 + 80 / 100)\<close>.
\<close>

theorem stats_empty_breakeven_counterexample:
  "trades demo_session = [] \<and>
   stats demo_session \<noteq>
     Inr \<lparr> total_trades = 0, wins = 0, losses = 0, pushes = 0, win_rate = 0,
           total_pl = 0, roi_percent = 0, expectancy = 0, avg_win = 0, avg_loss = 0,
           max_drawdown_percent = 0, current_streak = 0,
           breakeven_wr = 100 / (1 + payout_percent demo_session / 100) \<rparr>"
  by (simp add: stats_def demo_session_def)

text \<open>
  C1, amended: for every session, \<^verbatim>\<open>stats()\<close> on an empty trade history returns a result
  in which every field is zero, \<^verbatim>\<open>breakeven_wr\<close> included; no exception is raised.
\<close>

theorem stats_empty_all_zero:
  "trades s = [] \<Longrightarrow>
   stats s = Inr \<lparr> total_trades = 0, wins = 0, losses = 0, pushes = 0, win_rate = 0,
              total_pl = 0, roi_percent = 0, expectancy = 0, avg_win = 0, avg_loss = 0,
              max_drawdown_percent = 0, current_streak = 0, breakeven_wr = 0 \<rparr>"
  by (simp add: stats_def)

theorem stats_empty_all_zero_witness:
  "trades demo_session = [] \<and>
   stats demo_session =
     Inr \<lparr> total_trades = 0, wins = 0, losses = 0, pushes = 0, win_rate = 0,
           total_pl = 0, roi_percent = 0, expectancy = 0, avg_win = 0, avg_loss = 0,
           max_drawdown_percent = 0, current_streak = 0, breakeven_wr = 0 \<rparr>"
proof -
  have e: "trades demo_session = []" by (simp add: demo_session_def)
  show ?thesis using e stats_empty_all_zero [OF e] by simp
qed

subsection \<open>C2: streaks after undo against a replay\<close>

text \<open>
  C2, as stated, fails: record WIN, PUSH, LOSS and undo. The surviving history is WIN, PUSH.
  The backward scan meets the PUSH first and stops with both counters zero; replaying
  \<^verbatim>\<open>record\<close> over WIN, PUSH leaves one consecutive win, since a PUSH does not touch the
  counters in \<^verbatim>\<open>add_trade\<close>.
\<close>

theorem undo_streaks_replay_counterexample:
  "map result (trades (run_ops demo_session push_history)) = [WIN, PUSH]
   \<and> consecutive_wins (run_ops demo_session push_history) = 0
   \<and> consecutive_wins (replay demo_session (trades (run_ops demo_session push_history))) = 1"
  by (simp add: push_history_def replay_def eval_simps)

text \<open>
  C2, amended: for every history ending in an undo, the \<^verbatim>\<open>consecutive_wins\<close> and
  \<^verbatim>\<open>consecutive_losses\<close> recomputed by the backward scan equal the values obtained by
  replaying \<^verbatim>\<open>record\<close> from a fresh session over the trades of the surviving history that
  follow its last PUSH (over the whole surviving history when it holds no PUSH). The
  streak state after an undo is a function of the surviving history alone.
\<close>

theorem undo_streaks_replay_after_push:
  assumes "trades s \<noteq> []" and "Session_init config now = Inr s0"
  shows "consecutive_wins (snd (undo_last_trade s)) =
           consecutive_wins (replay s0 (after_last_push (butlast (trades s))))
       \<and> consecutive_losses (snd (undo_last_trade s)) =
           consecutive_losses (replay s0 (after_last_push (butlast (trades s))))"
proof -
  have z: "consecutive_wins s0 = 0" "consecutive_losses s0 = 0"
    using assms(2) by (rule Session_init_fresh)+
  show ?thesis
    using replay_streaks[OF z after_last_push_no_push, of "butlast (trades s)"]
    by (simp add: undo_streaks[OF assms(1)] after_last_push_run)
qed

theorem undo_streaks_replay_after_push_witness:
  "trades (run_ops demo_session (butlast push_history)) \<noteq> []
   \<and> Session_init demo_config 0 = Inr demo_session
   \<and> consecutive_wins (snd (undo_last_trade (run_ops demo_session (butlast push_history)))) = 0
   \<and> consecutive_losses (snd (undo_last_trade (run_ops demo_session (butlast push_history)))) = 0"
  using undo_streaks_replay_after_push
          [of "run_ops demo_session (butlast push_history)" demo_config 0 demo_session]
  by (simp add: demo_init after_last_push_def replay_def push_history_def eval_simps)

subsection \<open>C3: the balance and the profit and loss of the trades\<close>

text \<open>
  C3, as stated, fails: every operation on the balance rounds, and rounded addition is not
  associative. After three WIN trades on the default session the balance is
  \<open>4947204190666489 / 2199023255552\<close> (printed \<^verbatim>\<open>2249.7279999999996\<close>), which is neither
  the initial balance plus the sum of the three payouts, nor that expression evaluated in
  doubles (printed \<^verbatim>\<open>2249.728\<close>).
\<close>

theorem balance_sum_counterexample:
  "Session_init demo_config 0 = Inr demo_session \<and> list_all is_record three_wins
   \<and> current_balance (run_ops demo_session three_wins) = 4947204190666489 / 2199023255552
   \<and> current_balance (run_ops demo_session three_wins) \<noteq>
         initial_balance demo_session
           + sum_list (map profit_loss (trades (run_ops demo_session three_wins)))
   \<and> current_balance (run_ops demo_session three_wins) \<noteq>
         fl_add (initial_balance demo_session)
           (py_sum (map profit_loss (trades (run_ops demo_session three_wins))))"
  by (simp add: demo_init three_wins_def profit_loss_def py_sum_def eval_simps fl_facts)

text \<open>
  C3, amended: for every sequence of \<^verbatim>\<open>record\<close> calls from a fresh session, the resulting
  \<^verbatim>\<open>current_balance\<close> equals the value obtained from \<^verbatim>\<open>initial_balance\<close> by adding the
  \<^verbatim>\<open>profit_loss\<close> of the recorded trades one trade at a time, oldest first, each addition
  rounded to a double (WIN: the payout, LOSS: minus the risk amount, PUSH: the balance
  stays); there is one recorded trade per call.
\<close>

theorem balance_is_accumulated_profit_loss:
  assumes "Session_init config now = Inr s0" and "list_all is_record ops"
  shows "current_balance (run_ops s0 ops) =
           balance_from (initial_balance s0) (trades (run_ops s0 ops))
       \<and> length (trades (run_ops s0 ops)) = length ops"
proof -
  have "balance_replayed s0" "trades s0 = []"
    using Session_init_fresh[OF assms(1)] by (simp_all add: balance_replayed_def balance_from_def)
  then show ?thesis
    using run_records_balance[OF _ assms(2), of s0] by (simp add: balance_replayed_def)
qed

theorem balance_is_accumulated_profit_loss_witness:
  "Session_init demo_config 0 = Inr demo_session \<and> list_all is_record win_loss_push
   \<and> current_balance (run_ops demo_session win_loss_push) = 2030
   \<and> balance_from 2000 (trades (run_ops demo_session win_loss_push)) = 2030"
  using balance_is_accumulated_profit_loss [of demo_config 0 demo_session win_loss_push]
  by (simp add: demo_init win_loss_push_def balance_from_def profit_loss_def eval_simps fl_facts)

subsection \<open>C4: the risk of a trade\<close>

text \<open>
  C4: a risk override, when provided, is the risk used. The code tests the truth value of
  the override, so an override of \<^verbatim>\<open>0.0\<close> is provided and not used: on the fresh default
  session, \<^verbatim>\<open>add_trade(LOSS, "CALL", 0.0)\<close> records a risk amount of 100 (five percent of
  2000) and the balance drops to 1900.
\<close>

theorem zero_override_not_used:
  "risk_amount (fst (add_trade LOSS ''CALL'' (Some 0) ''10:00:00'' demo_session)) = 100
   \<and> current_risk_amount demo_session = 100
   \<and> current_balance (snd (add_trade LOSS ''CALL'' (Some 0) ''10:00:00'' demo_session)) = 1900"
  by (simp add: eval_simps fl_facts)

subsection \<open>C5: the stop conditions and their precedence\<close>




subsection \<open>C6: record followed by undo\<close>

text \<open>
  C6: in every session state reached from a fresh session, \<^verbatim>\<open>record\<close> followed by
  \<^verbatim>\<open>undo\<close> restores \<^verbatim>\<open>current_balance\<close> and the length of \<^verbatim>\<open>trades\<close>. The running
  maximum and minimum are not restored in general: on the fresh default session a WIN
  followed by undo leaves \<^verbatim>\<open>max_balance\<close> changed, a LOSS followed by undo leaves
  \<^verbatim>\<open>min_balance\<close> changed.
\<close>

theorem record_then_undo_restores_balance:
  "(Session_init config now = Inr s0 \<longrightarrow>
      current_balance (snd (undo_last_trade (snd (add_trade r ty cr ts (run_ops s0 ops)))))
        = current_balance (run_ops s0 ops)
      \<and> length (trades (snd (undo_last_trade (snd (add_trade r ty cr ts (run_ops s0 ops))))))
        = length (trades (run_ops s0 ops)))
   \<and> max_balance
       (snd (undo_last_trade (snd (add_trade WIN ''CALL'' None ''10:00:00'' demo_session))))
        \<noteq> max_balance demo_session
   \<and> min_balance
       (snd (undo_last_trade (snd (add_trade LOSS ''CALL'' None ''10:00:00'' demo_session))))
        \<noteq> min_balance demo_session"
proof -
  have "balance_snapshot (run_ops s0 ops)" if "Session_init config now = Inr s0"
    using Session_init_fresh[OF that]
    by (intro run_ops_balance_snapshot) (simp add: balance_snapshot_def)
  then have "Session_init config now = Inr s0 \<longrightarrow>
      current_balance (snd (undo_last_trade (snd (add_trade r ty cr ts (run_ops s0 ops)))))
        = current_balance (run_ops s0 ops)
      \<and> length (trades (snd (undo_last_trade (snd (add_trade r ty cr ts (run_ops s0 ops))))))
        = length (trades (run_ops s0 ops))"
    by (simp add: record_undo_restores)
  moreover have
    "max_balance
       (snd (undo_last_trade (snd (add_trade WIN ''CALL'' None ''10:00:00'' demo_session))))
        \<noteq> max_balance demo_session"
    by (simp add: eval_simps fl_facts)
  moreover have
    "min_balance
       (snd (undo_last_trade (snd (add_trade LOSS ''CALL'' None ''10:00:00'' demo_session))))
        \<noteq> min_balance demo_session"
    by (simp add: eval_simps fl_facts)
  ultimately show ?thesis by blast
qed

theorem record_then_undo_restores_balance_witness:
  "Session_init demo_config 0 = Inr demo_session
   \<and> current_balance (snd (undo_last_trade (snd (add_trade LOSS ''PUT'' None ''10:03:00''
         (run_ops demo_session win_loss_push))))) = 2030
   \<and> current_balance (run_ops demo_session win_loss_push) = 2030"
  using record_then_undo_restores_balance
          [of demo_config 0 demo_session LOSS "''PUT''" None "''10:03:00''" win_loss_push]
  by (simp add: demo_init win_loss_push_def eval_simps fl_facts)

subsection \<open>C7: undo on an empty and on a non-empty history\<close>

text \<open>
  C7: on an empty history \<^verbatim>\<open>undo\<close> returns \<^verbatim>\<open>False\<close> and the session is unchanged. On a
  non-empty history it returns \<^verbatim>\<open>True\<close>, removes exactly the most recent trade and sets
  \<^verbatim>\<open>current_balance\<close> to the \<^verbatim>\<open>balance_after\<close> of the new last trade, or to
  \<^verbatim>\<open>initial_balance\<close> when the history has become empty.
\<close>

theorem undo_empty_noop_else_pop:
  "(trades s = [] \<longrightarrow> undo_last_trade s = (False, s))
   \<and> (trades s \<noteq> [] \<longrightarrow>
        fst (undo_last_trade s) = True
        \<and> trades (snd (undo_last_trade s)) = butlast (trades s)
        \<and> current_balance (snd (undo_last_trade s)) =
            (if butlast (trades s) = [] then initial_balance s
             else balance_after (last (butlast (trades s)))))"
  by (simp add: undo_trades undo_balance) (simp add: undo_last_trade_def Let_def)

theorem undo_empty_noop_else_pop_witness:
  "trades demo_session = [] \<and> undo_last_trade demo_session = (False, demo_session)
   \<and> trades (run_ops demo_session win_loss_push) \<noteq> []
   \<and> fst (undo_last_trade (run_ops demo_session win_loss_push)) = True
   \<and> length (trades (snd (undo_last_trade (run_ops demo_session win_loss_push)))) = 2
   \<and> current_balance (snd (undo_last_trade (run_ops demo_session win_loss_push))) = 2030"
  using undo_empty_noop_else_pop [of demo_session]
        undo_empty_noop_else_pop [of "run_ops demo_session win_loss_push"]
  by (simp add: win_loss_push_def eval_simps fl_facts)

subsection \<open>C8: at most one streak counter is nonzero\<close>

text \<open>
  C8: in every session state reached from a fresh session by a sequence of record, undo
  and reset operations (and changes of the risk and payout settings), at most one of
  \<^verbatim>\<open>consecutive_wins\<close> and \<^verbatim>\<open>consecutive_losses\<close> is nonzero.
\<close>

theorem streaks_mutually_exclusive:
  assumes "Session_init config now = Inr s0"
  shows "consecutive_wins (run_ops s0 ops) = 0 \<or> consecutive_losses (run_ops s0 ops) = 0"
proof -
  have "streaks_exclusive s0"
    using Session_init_fresh[OF assms] by (simp add: streaks_exclusive_def)
  then have "streaks_exclusive (run_ops s0 ops)"
    by (rule run_ops_exclusive)
  then show ?thesis by (simp add: streaks_exclusive_def)
qed

theorem streaks_mutually_exclusive_witness:
  "Session_init demo_config 0 = Inr demo_session
   \<and> (consecutive_wins (run_ops demo_session (push_history @ [Reset 1, SetRisk 2])) = 0
      \<or> consecutive_losses (run_ops demo_session (push_history @ [Reset 1, SetRisk 2])) = 0)"
  using streaks_mutually_exclusive
          [of demo_config 0 demo_session "push_history @ [Reset 1, SetRisk 2]"]
  by (simp add: demo_init)

subsection \<open>C9: a risk or payout command with an argument that is not a number\<close>

text \<open>
  C9: for a command whose first token is \<^verbatim>\<open>risk\<close> or \<^verbatim>\<open>payout\<close> and whose second token
  is not parseable as a number, \<^verbatim>\<open>handle_command\<close> returns normally without the quit
  signal, the session (so the percent setting) is unchanged, and the status message is
  \<^verbatim>\<open>Invalid risk value\<close>, respectively \<^verbatim>\<open>Invalid payout value\<close>.
\<close>

theorem invalid_argument_keeps_setting:
  assumes "py_split (py_strip cmd) = verb # arg # rest" and "parse_float arg = None"
  shows "(verb = ''risk'' \<longrightarrow>
            handle_command parse_float str_float now cmd tui =
              Inr (None, tui\<lparr> status_message := ''Invalid risk value'' \<rparr>))
       \<and> (verb = ''payout'' \<longrightarrow>
            handle_command parse_float str_float now cmd tui =
              Inr (None, tui\<lparr> status_message := ''Invalid payout value'' \<rparr>))"
  using assms by (simp add: handle_command_def)

theorem invalid_argument_keeps_setting_witness:
  "py_split (py_strip ''risk abc'') = ''risk'' # ''abc'' # [] \<and> demo_parse ''abc'' = None
   \<and> handle_command demo_parse demo_str 0 ''risk abc'' demo_tui =
       Inr (None, demo_tui\<lparr> status_message := ''Invalid risk value'' \<rparr>)
   \<and> py_split (py_strip '' payout  x1 2'') = ''payout'' # ''x1'' # [''2'']
   \<and> demo_parse ''x1'' = None
   \<and> handle_command demo_parse demo_str 0 '' payout  x1 2'' demo_tui =
       Inr (None, demo_tui\<lparr> status_message := ''Invalid payout value'' \<rparr>)"
  using invalid_argument_keeps_setting
          [of "''risk abc''" "''risk''" "''abc''" "[]" demo_parse demo_str 0 demo_tui]
        invalid_argument_keeps_setting
          [of "'' payout  x1 2''" "''payout''" "''x1''" "[''2'']" demo_parse demo_str 0 demo_tui]
  by (simp add: py_split_def py_strip_def is_space_def demo_parse_def)

subsection \<open>C10: a bare risk or payout command\<close>

text \<open>
  C10: for a command that is the single token \<^verbatim>\<open>risk\<close> or \<^verbatim>\<open>payout\<close> (surrounding
  whitespace apart), \<^verbatim>\<open>handle_command\<close> does not report an invalid value: the session is
  unchanged and the status message is \<^verbatim>\<open>Unknown command: \<close> followed by the verb.
\<close>

theorem bare_verb_is_unknown_command:
  assumes "py_split (py_strip cmd) = [verb]" and "verb = ''risk'' \<or> verb = ''payout''"
  shows "handle_command parse_float str_float now cmd tui =
           Inr (None, tui\<lparr> status_message := ''Unknown command: '' @ verb \<rparr>)"
  using assms by (auto simp: handle_command_def)

theorem bare_verb_is_unknown_command_witness:
  "py_split (py_strip ''risk'') = [''risk'']
   \<and> handle_command demo_parse demo_str 0 ''risk'' demo_tui =
       Inr (None, demo_tui\<lparr> status_message := ''Unknown command: risk'' \<rparr>)
   \<and> py_split (py_strip ''payout '') = [''payout'']
   \<and> handle_command demo_parse demo_str 0 ''payout '' demo_tui =
       Inr (None, demo_tui\<lparr> status_message := ''Unknown command: payout'' \<rparr>)"
  using bare_verb_is_unknown_command [of "''risk''" "''risk''" demo_parse demo_str 0 demo_tui]
        bare_verb_is_unknown_command [of "''payout ''" "''payout''" demo_parse demo_str 0 demo_tui]
  by (simp add: py_split_def py_strip_def is_space_def)

end
